theory Spec2Isabelle
  imports Complex_Main "HOL-Library.Multiset"
begin

section \<open>Python and NumPy primitives used by remora/data\_chunks.py\<close>

text \<open>
  Exceptions are values.  \<open>str_exn\<close> is Python's \<open>str(e)\<close>, the key under which
  \<open>load_chunks\<close> files a caught exception in its rejection histogram.
\<close>

datatype exn =
    RemoraError string
  | ValueError string
  | IndexError string
  | KeyError string
  | ZeroDivisionError string
  | TypeError string

fun str_exn :: "exn \<Rightarrow> string" where
  "str_exn (RemoraError s) = s"
| "str_exn (ValueError s) = s"
| "str_exn (IndexError s) = s"
| "str_exn (KeyError s) = s"
| "str_exn (ZeroDivisionError s) = s"
| "str_exn (TypeError s) = s"

text \<open>
  The subscript \<open>xs[i]\<close> of a list, a string or a one-dimensional array: positions
  \<open>-len(xs), ..., -1\<close> address the elements from the back, anything outside
  \<open>-len(xs), ..., len(xs) - 1\<close> raises \<open>IndexError\<close>.
\<close>

definition py_index :: "'a list \<Rightarrow> int \<Rightarrow> exn + 'a" where
  "py_index xs i =
     (if 0 \<le> i \<and> i < int (length xs) then Inr (xs ! nat i)
      else if i < 0 \<and> - int (length xs) \<le> i then Inr (xs ! nat (int (length xs) + i))
      else Inl (IndexError ''index out of range''))"

text \<open>Slicing \<open>xs[a:b]\<close>: each bound is wrapped when negative, then clamped to the list.\<close>

definition slice_bound :: "nat \<Rightarrow> int \<Rightarrow> nat" where
  "slice_bound n i = (if i < 0 then nat (max 0 (int n + i)) else min (nat i) n)"

definition py_slice :: "'a list \<Rightarrow> int \<Rightarrow> int \<Rightarrow> 'a list" where
  "py_slice xs a b =
     (let lo = slice_bound (length xs) a; hi = slice_bound (length xs) b
      in take (hi - lo) (drop lo xs))"

text \<open>\<open>xs[:b]\<close> and \<open>xs[a:]\<close>.\<close>

definition py_slice_to :: "'a list \<Rightarrow> int \<Rightarrow> 'a list" where
  "py_slice_to xs b = take (slice_bound (length xs) b) xs"

definition py_slice_from :: "'a list \<Rightarrow> int \<Rightarrow> 'a list" where
  "py_slice_from xs a = drop (slice_bound (length xs) a) xs"

text \<open>
  \<open>np.searchsorted\<close> is library code, modelled by its documented contract on a sorted
  array: with \<open>side="right"\<close> the number of entries \<open>\<le> v\<close>, with \<open>side="left"\<close> the
  number of entries \<open>< v\<close>.
\<close>

definition searchsorted_right :: "int list \<Rightarrow> int \<Rightarrow> int" where
  "searchsorted_right a v = int (length (filter (\<lambda>x. x \<le> v) a))"

definition searchsorted_left :: "int list \<Rightarrow> int \<Rightarrow> int" where
  "searchsorted_left a v = int (length (filter (\<lambda>x. x < v) a))"

text \<open>\<open>np.diff\<close> of a one-dimensional array.\<close>

definition np_diff :: "int list \<Rightarrow> int list" where
  "np_diff xs = map2 (\<lambda>a b. b - a) xs (tl xs)"

text \<open>
  A two-dimensional array is the list of its rows.  Every array built below has at
  least four rows, so its number of columns is the length of the first row.
\<close>

definition ncols :: "'a list list \<Rightarrow> nat" where
  "ncols rows = (case rows of [] \<Rightarrow> 0 | r # _ \<Rightarrow> length r)"

definition repeat_row :: "int list \<Rightarrow> 'a list \<Rightarrow> 'a list" where
  "repeat_row reps row = concat (map2 (\<lambda>k x. replicate (nat k) x) reps row)"

text \<open>
  \<open>np.repeat(a, repeats, axis=1)\<close>: a \<open>repeats\<close> of size one is broadcast to every
  column, any other size must equal the number of columns, and a negative count
  raises.
\<close>

definition np_repeat_axis1 :: "'a list list \<Rightarrow> int list \<Rightarrow> exn + 'a list list" where
  "np_repeat_axis1 rows reps =
     (let n = ncols rows in
      if length reps \<noteq> 1 \<and> length reps \<noteq> n
      then Inl (ValueError ''operands could not be broadcast together'')
      else if list_ex (\<lambda>r. r < 0) reps
      then Inl (ValueError ''repeats may not contain negative values.'')
      else Inr (map (repeat_row (if length reps = 1 then replicate n (hd reps) else reps))
                  rows))"

section \<open>Base encodings\<close>

definition BASE_ENCODINGS :: "char \<rightharpoonup> bool list" where
  "BASE_ENCODINGS =
     [CHR ''A'' \<mapsto> [True, False, False, False],
      CHR ''C'' \<mapsto> [False, True, False, False],
      CHR ''G'' \<mapsto> [False, False, True, False],
      CHR ''T'' \<mapsto> [False, False, False, True],
      CHR ''N'' \<mapsto> [False, False, False, False]]"

definition ENCODING_LEN :: nat where
  "ENCODING_LEN = 4"

text \<open>The list comprehension \<open>[BASE_ENCODINGS[b] for b in s]\<close>; a missing key raises.\<close>

fun lookup_encodings :: "string \<Rightarrow> exn + bool list list" where
  "lookup_encodings [] = Inr []"
| "lookup_encodings (b # bs) =
     (case BASE_ENCODINGS b of
        None \<Rightarrow> Inl (KeyError [CHR 0x27, b, CHR 0x27])
      | Some v \<Rightarrow>
          (case lookup_encodings bs of
             Inl e \<Rightarrow> Inl e
           | Inr vs \<Rightarrow> Inr (v # vs)))"

text \<open>\<open>np.stack(vs, axis=1)\<close> of vectors of length four: row \<open>r\<close> holds channel \<open>r\<close>.\<close>

definition np_stack_axis1 :: "bool list list \<Rightarrow> exn + bool list list" where
  "np_stack_axis1 vs =
     (if vs = [] then Inl (ValueError ''need at least one array to stack'')
      else Inr (map (\<lambda>r. map (\<lambda>v. v ! r) vs) [0..<ENCODING_LEN]))"

section \<open>Reads and chunks\<close>

type_synonym sample = real

record RemoraRead =
  sig :: "sample list"
  seq :: string
  seq_to_sig_map :: "int list"
  read_id :: "string option"
  int_seq :: "int list option"

text \<open>
  The fields \<open>seq_to_sig_map\<close> and \<open>read_id\<close> of a chunk carry the prefix
  \<open>chunk_\<close>; \<open>base_sig_lens_cache\<close> and \<open>seq_nn_input_cache\<close> are the private
  fields \<open>_base_sig_lens\<close> and \<open>_seq_nn_input\<close>.
\<close>

record Chunk =
  signal :: "sample list"
  sequence :: string
  chunk_seq_to_sig_map :: "int list"
  before_context_seq :: string
  after_context_seq :: string
  sig_focus_pos :: int
  seq_focus_pos :: int
  label :: int
  chunk_read_id :: "string option"
  read_seq_pos :: int
  base_sig_lens_cache :: "int list option"
  seq_nn_input_cache :: "bool list list option"

definition mask_focus_base :: "Chunk \<Rightarrow> exn + Chunk" where
  "mask_focus_base c =
     (case py_index (sequence c) (seq_focus_pos c) of
        Inl e \<Rightarrow> Inl e
      | Inr b \<Rightarrow>
          if b = CHR ''N'' then Inr c
          else Inr (c\<lparr>sequence :=
                        py_slice_to (sequence c) (seq_focus_pos c) @ ''N'' @
                        py_slice_from (sequence c) (seq_focus_pos c + 1),
                      seq_nn_input_cache := None\<rparr>))"

definition kmer_len :: "Chunk \<Rightarrow> nat" where
  "kmer_len c = length (before_context_seq c) + length (after_context_seq c) + 1"

definition seq_w_context :: "Chunk \<Rightarrow> string" where
  "seq_w_context c = before_context_seq c @ sequence c @ after_context_seq c"

definition base_sig_lens :: "Chunk \<Rightarrow> int list \<times> Chunk" where
  "base_sig_lens c =
     (case base_sig_lens_cache c of
        Some l \<Rightarrow> (l, c)
      | None \<Rightarrow>
          (np_diff (chunk_seq_to_sig_map c),
           c\<lparr>base_sig_lens_cache := Some (np_diff (chunk_seq_to_sig_map c))\<rparr>))"

text \<open>
  The blocks \<open>np.stack([...], axis=1) for offset in range(kmer_len)\<close>, concatenated
  along the rows; \<open>n\<close> is \<open>len(self.sequence)\<close> and \<open>s\<close> is \<open>seq_w_context\<close>.
\<close>

fun enc_blocks :: "string \<Rightarrow> nat \<Rightarrow> nat list \<Rightarrow> exn + bool list list" where
  "enc_blocks s n [] = Inr []"
| "enc_blocks s n (off # offs) =
     (case lookup_encodings (take n (drop off s)) of
        Inl e \<Rightarrow> Inl e
      | Inr vs \<Rightarrow>
          (case np_stack_axis1 vs of
             Inl e \<Rightarrow> Inl e
           | Inr blk \<Rightarrow>
               (case enc_blocks s n offs of
                  Inl e \<Rightarrow> Inl e
                | Inr rows \<Rightarrow> Inr (blk @ rows))))"

definition enc_kmers :: "Chunk \<Rightarrow> exn + bool list list" where
  "enc_kmers c = enc_blocks (seq_w_context c) (length (sequence c)) [0..<kmer_len c]"

text \<open>
  The property \<open>seq_nn_input\<close>: the cached array when there is one, else the
  encoding, which is stored in the chunk.  The chunk is returned with its caches.
\<close>

definition seq_nn_input :: "Chunk \<Rightarrow> exn + (bool list list \<times> Chunk)" where
  "seq_nn_input c =
     (case seq_nn_input_cache c of
        Some t \<Rightarrow> Inr (t, c)
      | None \<Rightarrow>
          (case enc_kmers c of
             Inl e \<Rightarrow> Inl e
           | Inr ek \<Rightarrow>
               (case np_repeat_axis1 ek (fst (base_sig_lens c)) of
                  Inl e \<Rightarrow> Inl e
                | Inr t \<Rightarrow> Inr (t, (snd (base_sig_lens c))\<lparr>seq_nn_input_cache := Some t\<rparr>))))"

definition check :: "Chunk \<Rightarrow> exn + Chunk" where
  "check c =
     (if length (signal c) \<le> 0 then Inl (RemoraError ''No signal for chunk'')
      else
        (case seq_nn_input c of
           Inl e \<Rightarrow> Inl e
         | Inr (t, c') \<Rightarrow>
             if ncols t \<noteq> length (signal c') then Inl (RemoraError ''Invalid encoded sig length'')
             else if int (length (sequence c')) \<noteq> int (length (chunk_seq_to_sig_map c')) - 1
             then Inl (RemoraError ''Invalid sig to seq map length'')
             else Inr c'))"

text \<open>
  The three writes to the copied sub-map: \<open>m[0] = sig_start\<close>, \<open>m[-1] = sig_end\<close>,
  \<open>m -= sig_start\<close>.  On an empty sub-map the first write raises.  The final
  \<open>astype(np.int32)\<close> is the identity on signal indices, which are taken to fit
  32 bits.
\<close>

definition reanchor :: "int list \<Rightarrow> int \<Rightarrow> int \<Rightarrow> exn + int list" where
  "reanchor m sig_start sig_end =
     (if m = [] then Inl (IndexError ''index 0 is out of bounds for axis 0 with size 0'')
      else Inr (map (\<lambda>x. x - sig_start)
                  ((m[0 := sig_start])[length m - 1 := sig_end])))"

definition extract_chunk_from_read ::
  "RemoraRead \<Rightarrow> int \<times> int \<Rightarrow> int \<Rightarrow> int \<Rightarrow> int \<Rightarrow> int option \<Rightarrow> int option \<Rightarrow> int \<Rightarrow>
   string option \<Rightarrow> int \<Rightarrow> exn + Chunk" where
  "extract_chunk_from_read read kmer_context_bases sig_start sig_end lbl
       seq_start_arg seq_end_arg sig_focus rid rd_seq_pos =
     (let (seq_start, seq_end) =
            (case (seq_start_arg, seq_end_arg) of
               (Some s, Some e) \<Rightarrow> (s, e)
             | _ \<Rightarrow> (searchsorted_right (seq_to_sig_map read) sig_start - 1,
                     searchsorted_left (seq_to_sig_map read) sig_end))
      in case reanchor (py_slice (seq_to_sig_map read) seq_start (seq_end + 1))
                sig_start sig_end of
           Inl e \<Rightarrow> Inl e
         | Inr chunk_seq_to_sig \<Rightarrow>
             (let kmer_before_bases = fst kmer_context_bases;
                  kmer_after_bases = snd kmer_context_bases;
                  before_ctx = py_slice (seq read) (max 0 (seq_start - kmer_before_bases))
                                 seq_start;
                  after_ctx = py_slice (seq read) seq_end (seq_end + kmer_after_bases)
              in if int (length before_ctx) \<noteq> kmer_before_bases
                    \<or> int (length after_ctx) \<noteq> kmer_after_bases
                 then Inl (RemoraError ''Invalid context seq extracted'')
                 else Inr \<lparr>signal = py_slice (sig read) sig_start sig_end,
                           sequence = py_slice (seq read) seq_start seq_end,
                           chunk_seq_to_sig_map = chunk_seq_to_sig,
                           before_context_seq = before_ctx,
                           after_context_seq = after_ctx,
                           sig_focus_pos = sig_focus - sig_start,
                           seq_focus_pos = rd_seq_pos - seq_start,
                           label = lbl,
                           chunk_read_id = rid,
                           read_seq_pos = rd_seq_pos,
                           base_sig_lens_cache = None,
                           seq_nn_input_cache = None\<rparr>))"

section \<open>Motifs\<close>

text \<open>
  Modelled from the spec: \<open>util.Motif\<close> (the class, its compiled \<open>pattern\<close> and
  \<open>num_bases_after_focus\<close>) is not among the sources.  The spec describes a motif
  as an ordered sequence of base-matching symbols, possibly wildcards, with a focus
  index, matched in a left-to-right, non-overlapping scan.  A symbol is given here by
  the string of bases it matches (a wildcard is \<open>''ACGT''\<close>).
\<close>

record Motif =
  pattern :: "string list"
  focus_pos :: int

definition num_bases_after_focus :: "Motif \<Rightarrow> int" where
  "num_bases_after_focus m = int (length (pattern m)) - focus_pos m - 1"

text \<open>\<open>pattern.match(s)\<close>: the pattern matches a prefix of \<open>s\<close>.\<close>

fun pattern_match :: "string list \<Rightarrow> string \<Rightarrow> bool" where
  "pattern_match [] s = True"
| "pattern_match (p # ps) [] = False"
| "pattern_match (p # ps) (c # cs) = (c \<in> set p \<and> pattern_match ps cs)"

text \<open>
  \<open>pattern.finditer(s)\<close>, as the list of \<open>m.start()\<close>: \<open>i\<close> is the position of the
  first character of \<open>s\<close> in the scanned string and \<open>skip\<close> the number of characters
  still covered by the previous match.
\<close>

fun finditer_from :: "string list \<Rightarrow> nat \<Rightarrow> nat \<Rightarrow> string \<Rightarrow> nat list" where
  "finditer_from pat i skip [] = (if skip = 0 \<and> pat = [] then [i] else [])"
| "finditer_from pat i skip (c # cs) =
     (if 0 < skip then finditer_from pat (Suc i) (skip - 1) cs
      else if pattern_match pat (c # cs)
      then i # finditer_from pat (Suc i) (length pat - 1) cs
      else finditer_from pat (Suc i) 0 cs)"

definition finditer :: "string list \<Rightarrow> string \<Rightarrow> nat list" where
  "finditer pat s = finditer_from pat 0 0 s"

section \<open>Chunk extraction: load\_chunks\<close>

text \<open>
  The arguments of \<open>load_chunks\<close> other than the reads.  The types carry the first
  three argument checks of the function (\<open>num_chunks\<close> an integer or \<open>None\<close>,
  \<open>chunk_context\<close> of length two, of integers), which therefore cannot fail here.
\<close>

record load_args =
  num_chunks :: "int option"
  motif :: Motif
  label_conv :: "int list"
  chunk_context :: "int \<times> int"
  kmer_context_bases :: "int \<times> int"
  focus_offset :: "int option"
  fixed_seq_len_chunks :: bool
  base_pred :: bool
  full :: bool

text \<open>\<open>reject_reasons\<close> is a \<open>defaultdict(int)\<close>: a missing key reads as zero.\<close>

type_synonym reasons = "string \<Rightarrow> nat"

definition bump :: "reasons \<Rightarrow> string \<Rightarrow> reasons" where
  "bump r k = r(k := r k + 1)"

type_synonym lstate = "Chunk list \<times> reasons"

text \<open>The position at the centre of the focus base; not inside the \<open>try\<close>.\<close>

definition sig_focus_pos_at :: "RemoraRead \<Rightarrow> int \<Rightarrow> exn + int" where
  "sig_focus_pos_at read m_pos =
     (case py_index (seq_to_sig_map read) m_pos of
        Inl e \<Rightarrow> Inl e
      | Inr a \<Rightarrow>
          (case py_index (seq_to_sig_map read) (m_pos + 1) of
             Inl e \<Rightarrow> Inl e
           | Inr b \<Rightarrow> Inr ((a + b) div 2)))"

text \<open>
  The window of one focus position: a rejection with its counter, or
  \<open>sig_start\<close>, \<open>sig_end\<close>, \<open>seq_start\<close>, \<open>seq_end\<close> (the last two stay \<open>None\<close> in
  fixed-signal-length mode).
\<close>

datatype window = Reject string | Window int int "int option" "int option"

definition chunk_window :: "load_args \<Rightarrow> RemoraRead \<Rightarrow> int \<Rightarrow> int \<Rightarrow> exn + window" where
  "chunk_window args read m_pos sig_focus =
     (if fixed_seq_len_chunks args then
        (let seq_start = m_pos - fst (chunk_context args);
             seq_end = m_pos + snd (chunk_context args) + 1
         in if seq_start \<le> 0 then Inr (Reject ''Invalid base start'')
            else if seq_end \<ge> int (length (seq_to_sig_map read))
            then Inr (Reject ''Invalid base end'')
            else
              (case py_index (seq_to_sig_map read) seq_start of
                 Inl e \<Rightarrow> Inl e
               | Inr sig_start \<Rightarrow>
                   (case py_index (seq_to_sig_map read) seq_end of
                      Inl e \<Rightarrow> Inl e
                    | Inr sig_end \<Rightarrow>
                        Inr (Window sig_start sig_end (Some seq_start) (Some seq_end)))))
      else
        (let sig_start = sig_focus - fst (chunk_context args);
             sig_end = sig_focus + snd (chunk_context args)
         in if sig_start < 0 then Inr (Reject ''Invalid signal start'')
            else
              (case py_index (seq_to_sig_map read) (- 1) of
                 Inl e \<Rightarrow> Inl e
               | Inr sig_len \<Rightarrow>
                   if sig_end > sig_len then Inr (Reject ''Invalid signal end'')
                   else if sig_start \<ge> sig_end then Inr (Reject ''Empty signal'')
                   else Inr (Window sig_start sig_end None None))))"

definition chunk_label :: "load_args \<Rightarrow> RemoraRead \<Rightarrow> int \<Rightarrow> exn + int" where
  "chunk_label args read m_pos =
     (case int_seq read of
        None \<Rightarrow> Inr (- 1)
      | Some iseq \<Rightarrow>
          (case py_index iseq m_pos of
             Inl e \<Rightarrow> Inl e
           | Inr code \<Rightarrow> py_index (label_conv args) code))"

text \<open>The statements of the \<open>try\<close> block up to \<open>chunk.check()\<close>.\<close>

definition try_chunk ::
  "load_args \<Rightarrow> RemoraRead \<Rightarrow> int \<Rightarrow> int \<Rightarrow> int \<Rightarrow> int option \<Rightarrow> int option \<Rightarrow> int \<Rightarrow> int \<Rightarrow>
   exn + Chunk" where
  "try_chunk args read sig_start sig_end lbl seq_start seq_end sig_focus m_pos =
     (case extract_chunk_from_read read (kmer_context_bases args) sig_start sig_end lbl
             seq_start seq_end sig_focus (read_id read) m_pos of
        Inl e \<Rightarrow> Inl e
      | Inr c \<Rightarrow>
          (case (if base_pred args then mask_focus_base c else Inr c) of
             Inl e \<Rightarrow> Inl e
           | Inr c1 \<Rightarrow> check c1))"

text \<open>
  One pass of the loop over \<open>motif_pos\<close>.  The result is the new state and whether
  the loop was left by \<open>break\<close>; \<open>Inl\<close> is an exception that leaves \<open>load_chunks\<close>.
\<close>

definition load_chunks_pos ::
  "load_args \<Rightarrow> RemoraRead \<Rightarrow> lstate \<Rightarrow> int \<Rightarrow> exn + (lstate \<times> bool)" where
  "load_chunks_pos args read st m_pos =
     (case sig_focus_pos_at read m_pos of
        Inl e \<Rightarrow> Inl e
      | Inr sig_focus \<Rightarrow>
          (case chunk_window args read m_pos sig_focus of
             Inl e \<Rightarrow> Inl e
           | Inr (Reject reason) \<Rightarrow> Inr ((fst st, bump (snd st) reason), False)
           | Inr (Window sig_start sig_end seq_start seq_end) \<Rightarrow>
               (case chunk_label args read m_pos of
                  Inl e \<Rightarrow> Inl e
                | Inr lbl \<Rightarrow>
                    (case try_chunk args read sig_start sig_end lbl seq_start seq_end
                            sig_focus m_pos of
                       Inl e \<Rightarrow> Inr ((fst st, bump (snd st) (str_exn e)), False)
                     | Inr c \<Rightarrow>
                         Inr ((fst st @ [c], bump (snd st) ''success''),
                              (case num_chunks args of
                                 None \<Rightarrow> False
                               | Some n \<Rightarrow> int (length (fst st @ [c])) \<ge> n))))))"

fun load_chunks_positions ::
  "load_args \<Rightarrow> RemoraRead \<Rightarrow> lstate \<Rightarrow> int list \<Rightarrow> exn + lstate" where
  "load_chunks_positions args read st [] = Inr st"
| "load_chunks_positions args read st (m_pos # ms) =
     (case load_chunks_pos args read st m_pos of
        Inl e \<Rightarrow> Inl e
      | Inr (st', brk) \<Rightarrow>
          if brk then Inr st' else load_chunks_positions args read st' ms)"

text \<open>One pass of the loop over the reads.\<close>

definition load_chunks_read :: "load_args \<Rightarrow> RemoraRead \<Rightarrow> lstate \<Rightarrow> exn + lstate" where
  "load_chunks_read args read st =
     (if full args then
        load_chunks_positions args read st
          (map (\<lambda>s. int s + focus_pos (motif args))
             (finditer (pattern (motif args)) (seq read)))
      else
        (case focus_offset args of
           None \<Rightarrow> Inl (TypeError ''>= not supported between NoneType and int'')
         | Some off \<Rightarrow>
             if off \<ge> int (length (seq read))
             then Inr (fst st, bump (snd st) ''[--focus-offset] past read seq'')
             else if \<not> pattern_match (pattern (motif args))
                        (py_slice (seq read) (off - focus_pos (motif args))
                           (off + num_bases_after_focus (motif args) + 1))
             then Inr (fst st, bump (snd st) ''Focus position motif mismatch'')
             else load_chunks_positions args read st [off]))"

fun load_chunks_reads :: "load_args \<Rightarrow> lstate \<Rightarrow> RemoraRead list \<Rightarrow> exn + lstate" where
  "load_chunks_reads args st [] = Inr st"
| "load_chunks_reads args st (read # reads) =
     (case load_chunks_read args read st of
        Inl e \<Rightarrow> Inl e
      | Inr st' \<Rightarrow> load_chunks_reads args st' reads)"

definition load_chunks :: "load_args \<Rightarrow> RemoraRead list \<Rightarrow> exn + Chunk list" where
  "load_chunks args reads =
     (if focus_offset args = None \<and> \<not> full args
      then Inl (ValueError ''Either --focus-offset or --full need to be set.'')
      else
        (case load_chunks_reads args ([], \<lambda>_. 0) reads of
           Inl e \<Rightarrow> Inl e
         | Inr (chunks, reject_reasons) \<Rightarrow>
             if length chunks = 0 then Inl (RemoraError ''No valid chunks extracted'')
             else Inr chunks))"

section \<open>RemoraDataset\<close>

text \<open>
  \<open>np.stack\<close> of a list of arrays: the list must not be empty and the shapes must
  agree.  A one-dimensional array has its length as shape, a two-dimensional one its
  numbers of rows and columns.
\<close>

definition np_stack :: "('a \<Rightarrow> nat \<times> nat) \<Rightarrow> 'a list \<Rightarrow> exn + 'a list" where
  "np_stack shape arrs =
     (case arrs of
        [] \<Rightarrow> Inl (ValueError ''need at least one array to stack'')
      | a # _ \<Rightarrow>
          if list_all (\<lambda>b. shape b = shape a) arrs then Inr arrs
          else Inl (ValueError ''all input arrays must have the same shape''))"

definition shape1 :: "'a list \<Rightarrow> nat \<times> nat" where
  "shape1 xs = (length xs, 0)"

definition shape2 :: "'a list list \<Rightarrow> nat \<times> nat" where
  "shape2 rows = (length rows, ncols rows)"

text \<open>\<open>[c.seq_nn_input for c in chunks]\<close>, reading each chunk's property in turn.\<close>

fun seq_nn_inputs :: "Chunk list \<Rightarrow> exn + bool list list list" where
  "seq_nn_inputs [] = Inr []"
| "seq_nn_inputs (c # cs) =
     (case seq_nn_input c of
        Inl e \<Rightarrow> Inl e
      | Inr (t, _) \<Rightarrow>
          (case seq_nn_inputs cs of
             Inl e \<Rightarrow> Inl e
           | Inr ts \<Rightarrow> Inr (t # ts)))"

text \<open>
  The tensors are kept as lists of rows, one row per chunk; \<open>batch_i\<close> is the field
  \<open>_batch_i\<close>, which exists once \<open>__iter__\<close> has run.
\<close>

record RemoraDataset =
  batch_size :: int
  shuffle :: bool
  drop_last :: bool
  return_read_data :: bool
  dataset_len :: nat
  n_batches :: int
  sig_tensor :: "sample list list"
  seq_tensor :: "bool list list list"
  labels :: "int list"
  read_data :: "(string option \<times> int) list option"
  batch_i :: int

definition RemoraDataset_init ::
  "Chunk list \<Rightarrow> int \<Rightarrow> bool \<Rightarrow> bool \<Rightarrow> bool \<Rightarrow> exn + RemoraDataset" where
  "RemoraDataset_init chunks bsize shuf dlast ret_rd =
     (if bsize = 0 then Inl (ZeroDivisionError ''integer division or modulo by zero'')
      else
        (let q = int (length chunks) div bsize;
             remainder = int (length chunks) mod bsize;
             nb = (if \<not> dlast \<and> remainder > 0 then q + 1 else q)
         in case np_stack shape1 (map signal chunks) of
              Inl e \<Rightarrow> Inl e
            | Inr sigs \<Rightarrow>
                (case seq_nn_inputs chunks of
                   Inl e \<Rightarrow> Inl e
                 | Inr ts \<Rightarrow>
                     (case np_stack shape2 ts of
                        Inl e \<Rightarrow> Inl e
                      | Inr seqs \<Rightarrow>
                          Inr \<lparr>batch_size = bsize, shuffle = shuf, drop_last = dlast,
                               return_read_data = ret_rd,
                               dataset_len = length chunks, n_batches = nb,
                               sig_tensor = sigs, seq_tensor = seqs,
                               labels = map label chunks,
                               read_data =
                                 (if ret_rd
                                  then Some (map (\<lambda>c. (chunk_read_id c, read_seq_pos c)) chunks)
                                  else None),
                               batch_i = 0\<rparr>))))"

text \<open>Indexing by an index tensor, \<open>t[shuf_idx]\<close>.\<close>

definition index_by :: "'a list \<Rightarrow> nat list \<Rightarrow> 'a list" where
  "index_by t idx = map (\<lambda>i. t ! i) idx"

text \<open>
  \<open>__iter__\<close>.  The result of \<open>torch.randperm(self.dataset_len)\<close> is the argument
  \<open>shuf_idx\<close>, a permutation of \<open>0, ..., dataset_len - 1\<close>.
\<close>

definition dataset_iter :: "RemoraDataset \<Rightarrow> nat list \<Rightarrow> RemoraDataset" where
  "dataset_iter d shuf_idx =
     (if shuffle d
      then d\<lparr>sig_tensor := index_by (sig_tensor d) shuf_idx,
             seq_tensor := index_by (seq_tensor d) shuf_idx,
             labels := index_by (labels d) shuf_idx,
             read_data :=
               (if return_read_data d
                then map_option (\<lambda>rd. index_by rd shuf_idx) (read_data d)
                else read_data d),
             batch_i := 0\<rparr>
      else d\<lparr>batch_i := 0\<rparr>)"

type_synonym batch =
  "(sample list list \<times> bool list list list) \<times> int list \<times> (string option \<times> int) list option"

text \<open>\<open>__next__\<close>: \<open>None\<close> is \<open>StopIteration\<close>.\<close>

definition dataset_next :: "RemoraDataset \<Rightarrow> (batch \<times> RemoraDataset) option" where
  "dataset_next d =
     (if batch_i d \<ge> n_batches d then None
      else
        (let b_st = batch_i d * batch_size d;
             b_en = b_st + batch_size d
         in Some (((py_slice (sig_tensor d) b_st b_en, py_slice (seq_tensor d) b_st b_en),
                   py_slice (labels d) b_st b_en,
                   (if return_read_data d
                    then map_option (\<lambda>rd. py_slice rd b_st b_en) (read_data d)
                    else None)),
                  d\<lparr>batch_i := batch_i d + 1\<rparr>)))"

text \<open>The batches of a \<open>for\<close> loop over the dataset, after \<open>__iter__\<close>.\<close>

function batches_from :: "RemoraDataset \<Rightarrow> batch list" where
  "batches_from d =
     (case dataset_next d of
        None \<Rightarrow> []
      | Some (b, d') \<Rightarrow> b # batches_from d')"
  by pat_completeness auto
termination
  by (relation "measure (\<lambda>d. nat (n_batches d - batch_i d))")
     (auto simp: dataset_next_def Let_def split: if_splits)

declare batches_from.simps [simp del]

definition full_pass :: "RemoraDataset \<Rightarrow> nat list \<Rightarrow> batch list" where
  "full_pass d shuf_idx = batches_from (dataset_iter d shuf_idx)"

text \<open>
  The rows of a dataset or of a batch: signal, sequence features, label and, when
  kept, the read data.
\<close>

type_synonym row = "sample list \<times> bool list list \<times> int \<times> (string option \<times> int) option"

definition mk_rows ::
  "sample list list \<Rightarrow> bool list list list \<Rightarrow> int list \<Rightarrow> (string option \<times> int) list option \<Rightarrow>
   row list" where
  "mk_rows sigs seqs lbls rd =
     zip sigs (zip seqs (zip lbls
       (case rd of None \<Rightarrow> replicate (length lbls) None | Some l \<Rightarrow> map Some l)))"

definition dataset_rows :: "RemoraDataset \<Rightarrow> row list" where
  "dataset_rows d = mk_rows (sig_tensor d) (seq_tensor d) (labels d) (read_data d)"

definition batch_rows :: "batch \<Rightarrow> row list" where
  "batch_rows b = mk_rows (fst (fst b)) (snd (fst b)) (fst (snd b)) (snd (snd b))"

section \<open>load\_datasets\<close>

text \<open>Python's \<open>int(x)\<close> on a float truncates towards zero.\<close>

definition py_int :: "real \<Rightarrow> int" where
  "py_int x = (if x \<ge> 0 then \<lfloor>x\<rfloor> else \<lceil>x\<rceil>)"

text \<open>
  \<open>val_prop\<close> is a real number, with exact arithmetic.  The outcome of
  \<open>np.random.shuffle(chunks)\<close> is the argument \<open>perm\<close>, a permutation of the indices
  of the chunks.  The result is \<open>(dl_trn, dl_val, dl_val_trn, chunks)\<close>.  The
  message of the error for too few chunks is kept without the two numbers that the
  source formats into it.
\<close>

definition load_datasets ::
  "load_args \<Rightarrow> int \<Rightarrow> real \<Rightarrow> bool \<Rightarrow> nat list \<Rightarrow> RemoraRead list \<Rightarrow>
   exn + (RemoraDataset \<times> RemoraDataset option \<times> RemoraDataset option \<times> Chunk list)" where
  "load_datasets args bsize val_prop ret_rd perm reads =
     (case load_chunks args reads of
        Inl e \<Rightarrow> Inl e
      | Inr chunks \<Rightarrow>
          if val_prop \<le> 0 then
            (case RemoraDataset_init chunks bsize (val_prop > 0) (val_prop > 0) ret_rd of
               Inl e \<Rightarrow> Inl e
             | Inr dl_trn \<Rightarrow> Inr (dl_trn, None, None, chunks))
          else if int (length chunks) < py_int (1 / val_prop) * 2
          then Inl (RemoraError ''Too few chunks to extract validation proportion'')
          else
            (let shuffled = index_by chunks perm;
                 val_idx = py_int (real (length shuffled) * val_prop);
                 trn_set = py_slice_from shuffled val_idx
             in case RemoraDataset_init (py_slice_to shuffled val_idx) bsize False False
                       ret_rd of
                  Inl e \<Rightarrow> Inl e
                | Inr dl_val \<Rightarrow>
                    (case RemoraDataset_init (py_slice shuffled val_idx (val_idx + val_idx))
                            bsize False False ret_rd of
                       Inl e \<Rightarrow> Inl e
                     | Inr dl_val_trn \<Rightarrow>
                         (case RemoraDataset_init trn_set bsize (val_prop > 0)
                                 (val_prop > 0) ret_rd of
                            Inl e \<Rightarrow> Inl e
                          | Inr dl_trn \<Rightarrow>
                              Inr (dl_trn, Some dl_val, Some dl_val_trn, shuffled)))))"

section \<open>Properties stated by the specification\<close>


text \<open>
  The read and the arguments of the end-to-end example: ten bases at ten samples
  each, motif CG with focus 0, five samples of signal on either side, one context
  base on either side, motif search over the whole read.
\<close>

definition example_read :: RemoraRead where
  "example_read =
     \<lparr>sig = replicate 100 0, seq = ''ACGTACGTAC'',
      seq_to_sig_map = [0, 10, 20, 30, 40, 50, 60, 70, 80, 90, 100],
      read_id = Some ''read0'', int_seq = None\<rparr>"

definition example_args :: load_args where
  "example_args =
     \<lparr>num_chunks = None, motif = \<lparr>pattern = [''C'', ''G''], focus_pos = 0\<rparr>,
      label_conv = [], chunk_context = (5, 5), kmer_context_bases = (1, 1),
      focus_offset = None, fixed_seq_len_chunks = False, base_pred = False,
      full = True\<rparr>"

definition chunk_summary :: "Chunk \<Rightarrow> int \<times> nat \<times> nat \<times> nat" where
  "chunk_summary c =
     (read_seq_pos c, length (signal c), length (before_context_seq c),
      length (after_context_seq c))"



text \<open>A valid chunk of three bases at one sample each, focused on its middle base.\<close>

definition small_chunk :: Chunk where
  "small_chunk =
     \<lparr>signal = [0, 0, 0], sequence = ''ACG'', chunk_seq_to_sig_map = [0, 1, 2, 3],
      before_context_seq = ''T'', after_context_seq = ''T'',
      sig_focus_pos = 1, seq_focus_pos = 1, label = 0, chunk_read_id = None,
      read_seq_pos = 1, base_sig_lens_cache = None, seq_nn_input_cache = None\<rparr>"






text \<open>
  The buffers of a dataset are parallel: as many rows in each as \<open>dataset_len\<close>, and
  read data exactly when it was asked for.
\<close>

definition dataset_wf :: "RemoraDataset \<Rightarrow> bool" where
  "dataset_wf d \<longleftrightarrow>
     length (sig_tensor d) = dataset_len d
     \<and> length (seq_tensor d) = dataset_len d
     \<and> length (labels d) = dataset_len d
     \<and> (case read_data d of
          None \<Rightarrow> \<not> return_read_data d
        | Some rd \<Rightarrow> return_read_data d \<and> length rd = dataset_len d)"

text \<open>The batch that \<open>__next__\<close> returns when \<open>_batch_i\<close> is \<open>k\<close>.\<close>

definition batch_of :: "RemoraDataset \<Rightarrow> nat \<Rightarrow> batch" where
  "batch_of d k = fst (the (dataset_next (d\<lparr>batch_i := int k, n_batches := int k + 1\<rparr>)))"


section \<open>Theorems\<close>

text \<open>
  C1.  The cap \<open>num_chunks\<close> is documented as the total maximum number of chunks
  returned.  The \<open>break\<close> taken when the cap is reached leaves only the loop over the
  positions of the current read, so the next read is still processed: with a cap of
  one and two copies of the example read, \<open>load_chunks\<close> returns two chunks.
\<close>

theorem load_chunks_exceeds_num_chunks:
  "map_sum id length
     (load_chunks (example_args\<lparr>num_chunks := Some 1\<rparr>) [example_read, example_read])
   = Inr 2"
  by code_simp

text \<open>
  C2.  On the example read, motif search finds the focus positions 1 and 5, their
  signal focus positions are 15 and 55, and \<open>load_chunks\<close> returns exactly two
  chunks, for the positions 1 and 5, each with ten samples of signal and context
  strings of length one before and after.
\<close>

theorem load_chunks_example:
  "map (\<lambda>s. int s + focus_pos (motif example_args))
     (finditer (pattern (motif example_args)) (seq example_read)) = [1, 5]
   \<and> sig_focus_pos_at example_read 1 = Inr 15
   \<and> sig_focus_pos_at example_read 5 = Inr 55
   \<and> map_sum id (map chunk_summary) (load_chunks example_args [example_read])
       = Inr [(1, 10, 1, 1), (5, 10, 1, 1)]"
  by code_simp

text \<open>
  C5.  With \<open>val_prop = 3/4\<close> and the two chunks of the example read, two is smaller
  than \<open>2 / val_prop\<close>, yet \<open>load_datasets\<close> does not fail: it returns a validation
  set of a single chunk.  The test of the code is \<open>N < int(1 / val_prop) * 2\<close>, here
  \<open>2 < 2\<close>.
\<close>

theorem load_datasets_too_few_not_rejected:
  "real 2 < 2 / (3 / 4)
   \<and> map_sum id (\<lambda>(dl_trn, dl_val, dl_val_trn, chunks).
        (length chunks, map_option dataset_len dl_val, dataset_len dl_trn))
       (load_datasets example_args 64 (3 / 4) False [0, 1] [example_read])
     = Inr (2, Some 1, 1)"
  by code_simp

section \<open>Shape of the encoding and validity of extracted chunks\<close>
























section \<open>The encoding of a valid chunk\<close>








section \<open>Datasets without a validation split\<close>

lemma np_stack_Inr: "np_stack shape arrs = Inr x \<Longrightarrow> x = arrs \<and> arrs \<noteq> []"
  by (auto simp: np_stack_def split: list.splits if_splits)

lemma RemoraDataset_init_Inr:
  assumes "RemoraDataset_init chunks bs sh dl rrd = Inr d"
  shows "bs \<noteq> 0" "chunks \<noteq> []" "batch_size d = bs" "shuffle d = sh" "drop_last d = dl"
    "return_read_data d = rrd" "dataset_len d = length chunks"
    "sig_tensor d = map signal chunks" "seq_nn_inputs chunks = Inr (seq_tensor d)"
    "labels d = map label chunks"
    "read_data d = (if rrd then Some (map (\<lambda>c. (chunk_read_id c, read_seq_pos c)) chunks) else None)"
    "n_batches d = (if \<not> dl \<and> int (length chunks) mod bs > 0
                    then int (length chunks) div bs + 1 else int (length chunks) div bs)"
    "batch_i d = 0"
  using assms
  by (auto simp: RemoraDataset_init_def Let_def split: if_splits sum.splits
      dest!: np_stack_Inr)

lemma dataset_iter_no_shuffle:
  "\<not> shuffle d \<Longrightarrow> dataset_rows (dataset_iter d idx) = dataset_rows d"
  by (simp add: dataset_iter_def dataset_rows_def)

lemma example_no_split:
  "map_sum id (\<lambda>(dl_trn, dl_val, dl_val_trn, chunks). length chunks)
     (load_datasets example_args 64 0 False [] [example_read]) = Inr 2"
  by code_simp

text \<open>
  C10.  With \<open>val_prop <= 0\<close>, \<open>load_datasets\<close> fails exactly as \<open>load_chunks\<close> or the
  construction of the training dataset fails; otherwise it returns \<open>None\<close> for both
  validation datasets, the chunks as extracted, and a training dataset built from all
  of them in extraction order, with \<open>shuffle\<close> and \<open>drop_last\<close> off, whose rows an
  iteration leaves in place.
\<close>

theorem load_datasets_no_validation:
  assumes "val_prop \<le> 0"
  shows "case load_chunks args reads of
           Inl e \<Rightarrow> load_datasets args bs val_prop rrd perm reads = Inl e
         | Inr chunks \<Rightarrow>
             (case RemoraDataset_init chunks bs False False rrd of
                Inl e \<Rightarrow> load_datasets args bs val_prop rrd perm reads = Inl e
              | Inr dl_trn \<Rightarrow>
                  load_datasets args bs val_prop rrd perm reads
                    = Inr (dl_trn, None, None, chunks)
                  \<and> \<not> shuffle dl_trn \<and> \<not> drop_last dl_trn
                  \<and> dataset_len dl_trn = length chunks
                  \<and> sig_tensor dl_trn = map signal chunks
                  \<and> seq_nn_inputs chunks = Inr (seq_tensor dl_trn)
                  \<and> labels dl_trn = map label chunks
                  \<and> (\<forall>idx. dataset_rows (dataset_iter dl_trn idx) = dataset_rows dl_trn))"
proof (cases "load_chunks args reads")
  case (Inl e)
  then show ?thesis by (simp add: load_datasets_def)
next
  case (Inr chunks)
  show ?thesis
  proof (cases "RemoraDataset_init chunks bs False False rrd")
    case (Inl e)
    with Inr assms show ?thesis by (simp add: load_datasets_def)
  next
    case d: (Inr dl_trn)
    note f = RemoraDataset_init_Inr[OF d]
    have "load_datasets args bs val_prop rrd perm reads = Inr (dl_trn, None, None, chunks)"
      using Inr d assms by (simp add: load_datasets_def)
    moreover have "\<forall>idx. dataset_rows (dataset_iter dl_trn idx) = dataset_rows dl_trn"
      using f(4) by (simp add: dataset_iter_no_shuffle)
    ultimately show ?thesis using Inr d f by simp
  qed
qed

theorem load_datasets_no_validation_witness:
  "\<exists>dl_trn chunks.
     load_datasets example_args 64 0 False [] [example_read] = Inr (dl_trn, None, None, chunks)
     \<and> load_chunks example_args [example_read] = Inr chunks
     \<and> length chunks = 2 \<and> dataset_len dl_trn = 2
     \<and> \<not> shuffle dl_trn \<and> \<not> drop_last dl_trn
     \<and> sig_tensor dl_trn = map signal chunks \<and> labels dl_trn = map label chunks"
proof -
  have z: "(0::real) \<le> 0" by simp
  note t = load_datasets_no_validation[OF z, where args = example_args
      and reads = "[example_read]" and bs = 64 and rrd = False and perm = "[]"]
  from example_no_split obtain r where
    r: "load_datasets example_args 64 0 False [] [example_read] = Inr r" and
    l: "length (snd (snd (snd r))) = 2"
    by (cases "load_datasets example_args 64 0 False [] [example_read]") (auto split: prod.splits)
  show ?thesis
  proof (cases "load_chunks example_args [example_read]")
    case (Inl e)
    with t r show ?thesis by simp
  next
    case (Inr chunks)
    show ?thesis
    proof (cases "RemoraDataset_init chunks 64 False False False")
      case (Inl e)
      with t r Inr show ?thesis by simp
    next
      case d: (Inr dl_trn)
      with t r l Inr show ?thesis by auto
    qed
  qed
qed

section \<open>Rejection of invalid windows\<close>









section \<open>The only exception of load\_chunks on well-formed inputs\<close>












section \<open>Shuffling and batching a dataset\<close>

lemma index_by_zip:
  "\<forall>i\<in>set idx. i < length xs \<and> i < length ys \<Longrightarrow>
     index_by (zip xs ys) idx = zip (index_by xs idx) (index_by ys idx)"
  by (induction idx) (simp_all add: index_by_def)

lemma length_index_by [simp]: "length (index_by xs idx) = length idx"
  by (simp add: index_by_def)

lemma index_by_replicate:
  "\<forall>i\<in>set idx. i < n \<Longrightarrow> index_by (replicate n x) idx = replicate (length idx) x"
  by (induction idx) (simp_all add: index_by_def)

lemma index_by_map: 
  "\<forall>i\<in>set idx. i < length xs \<Longrightarrow> index_by (map f xs) idx = map f (index_by xs idx)"
  by (induction idx) (simp_all add: index_by_def)

lemma mset_index_by:
  assumes "mset idx = mset [0..<length xs]"
  shows "mset (index_by xs idx) = mset xs"
proof -
  have "mset (index_by xs idx) = image_mset (\<lambda>i. xs ! i) (mset idx)"
    by (simp add: index_by_def)
  also have "\<dots> = mset (map (\<lambda>i. xs ! i) [0..<length xs])"
    by (simp add: assms)
  also have "\<dots> = mset xs" by (simp add: map_nth)
  finally show ?thesis .
qed

lemma perm_idx_bound:
  assumes "mset idx = mset [0..<n]"
  shows "\<forall>i\<in>set idx. i < n" "length idx = n"
proof -
  from assms have "set idx = set [0..<n]" by (rule mset_eq_setD)
  then show "\<forall>i\<in>set idx. i < n" by auto
  from assms have "size (mset idx) = size (mset [0..<n])" by simp
  then show "length idx = n" by simp
qed

lemma dataset_rows_iter:
  assumes wf: "dataset_wf d" and p: "mset idx = mset [0..<dataset_len d]"
  shows "dataset_rows (dataset_iter d idx)
           = (if shuffle d then index_by (dataset_rows d) idx else dataset_rows d)"
proof (cases "shuffle d")
  case False
  then show ?thesis by (simp add: dataset_iter_def dataset_rows_def)
next
  case True
  note b = perm_idx_bound[OF p]
  from wf have l: "length (sig_tensor d) = dataset_len d" "length (seq_tensor d) = dataset_len d"
    "length (labels d) = dataset_len d"
    by (simp_all add: dataset_wf_def)
  show ?thesis
  proof (cases "read_data d")
    case None
    with True l b show ?thesis
      by (simp add: dataset_iter_def dataset_rows_def mk_rows_def index_by_zip
          index_by_replicate)
  next
    case (Some rd)
    with wf have "return_read_data d" "length rd = dataset_len d"
      by (simp_all add: dataset_wf_def)
    with Some True l b show ?thesis
      by (simp add: dataset_iter_def dataset_rows_def mk_rows_def index_by_zip
          index_by_map)
  qed
qed

lemma length_dataset_rows: "dataset_wf d \<Longrightarrow> length (dataset_rows d) = dataset_len d"
  by (auto simp: dataset_wf_def dataset_rows_def mk_rows_def split: option.splits)

lemma dataset_wf_iter:
  assumes wf: "dataset_wf d" and p: "mset idx = mset [0..<dataset_len d]"
  shows "dataset_wf (dataset_iter d idx)"
  using wf perm_idx_bound(2)[OF p]
  by (auto simp: dataset_wf_def dataset_iter_def split: option.splits)

lemma py_slice_nonneg:
  assumes "0 \<le> a" "a \<le> b"
  shows "py_slice xs a b = take (nat (b - a)) (drop (nat a) xs)"
proof (cases "nat a < length xs")
  case True
  with assms have "slice_bound (length xs) a = nat a"
    "slice_bound (length xs) b = min (nat b) (length xs)"
    by (simp_all add: slice_bound_def)
  with assms True show ?thesis
    by (auto simp: py_slice_def Let_def min_def nat_diff_distrib')
next
  case False
  with assms show ?thesis by (simp add: py_slice_def slice_bound_def)
qed

lemma batch_of_rows:
  assumes wf: "dataset_wf d" and bs: "0 < batch_size d"
  shows "batch_rows (batch_of d k)
           = take (nat (batch_size d)) (drop (k * nat (batch_size d)) (dataset_rows d))"
proof -
  let ?a = "int k * batch_size d" and ?b = "int k * batch_size d + batch_size d"
  have ab: "0 \<le> ?a" "?a \<le> ?b" using bs by simp_all
  have n: "nat (?b - ?a) = nat (batch_size d)" "nat ?a = k * nat (batch_size d)"
    using bs by (simp_all add: nat_mult_distrib)
  note s = py_slice_nonneg[OF ab, unfolded n]
  show ?thesis
  proof (cases "read_data d")
    case None
    with wf have "\<not> return_read_data d" by (simp add: dataset_wf_def)
    with None wf show ?thesis
      by (simp add: batch_of_def dataset_next_def Let_def batch_rows_def dataset_rows_def
          mk_rows_def s take_zip drop_zip dataset_wf_def min_def)
  next
    case (Some rd)
    with wf have "return_read_data d" by (simp add: dataset_wf_def)
    with Some show ?thesis
      by (simp add: batch_of_def dataset_next_def Let_def batch_rows_def dataset_rows_def
          mk_rows_def s take_zip drop_zip take_map drop_map)
  qed
qed

lemma batches_from_eq:
  "0 \<le> batch_i d \<Longrightarrow>
     map batch_rows (batches_from d)
       = map (\<lambda>k. batch_rows (batch_of d k)) [nat (batch_i d)..<nat (n_batches d)]"
proof (induction d rule: batches_from.induct)
  case (1 d)
  show ?case
  proof (cases "batch_i d \<ge> n_batches d")
    case True
    then have "dataset_next d = None" by (simp add: dataset_next_def)
    then have "batches_from d = []" by (subst batches_from.simps) simp
    with True show ?thesis by simp
  next
    case False
    let ?d' = "d\<lparr>batch_i := batch_i d + 1\<rparr>"
    obtain b where nx: "dataset_next d = Some (b, ?d')"
      using False by (simp add: dataset_next_def Let_def)
    have b: "b = batch_of d (nat (batch_i d))"
      using nx False "1.prems" by (auto simp: batch_of_def dataset_next_def Let_def)
    have same: "\<And>k. batch_of ?d' k = batch_of d k"
      by (simp add: batch_of_def dataset_next_def Let_def)
    have ih0: "map batch_rows (batches_from ?d')
          = map (\<lambda>k. batch_rows (batch_of ?d' k)) [nat (batch_i ?d')..<nat (n_batches ?d')]"
      using "1.IH"[OF nx refl] "1.prems" by simp
    have ih: "map batch_rows (batches_from ?d')
          = map (\<lambda>k. batch_rows (batch_of d k)) [Suc (nat (batch_i d))..<nat (n_batches d)]"
    proof -
      have "nat (batch_i d + 1) = Suc (nat (batch_i d))" using "1.prems" by simp
      then show ?thesis using ih0 by (simp add: same)
    qed
    have "nat (batch_i d) < nat (n_batches d)" using False "1.prems" by simp
    then have u: "[nat (batch_i d)..<nat (n_batches d)]
        = nat (batch_i d) # [Suc (nat (batch_i d))..<nat (n_batches d)]"
      by (rule upt_conv_Cons)
    have "batches_from d = b # batches_from ?d'"
      using nx by (subst batches_from.simps) simp
    with ih b u show ?thesis by simp
  qed
qed

lemma concat_windows:
  "concat (map (\<lambda>k. take w (drop (k * w) xs)) [0..<n]) = take (n * w) xs"
proof (induction n)
  case 0 then show ?case by simp
next
  case (Suc n)
  have "take (n * w) xs @ take w (drop (n * w) xs) = take (n * w + w) xs"
    by (simp add: take_add)
  with Suc show ?case by (simp add: add.commute)
qed

lemma full_pass_rows:
  assumes wf: "dataset_wf d" and p: "mset idx = mset [0..<dataset_len d]"
    and bs: "0 < batch_size d"
  shows "concat (map batch_rows (full_pass d idx))
           = take (nat (n_batches d) * nat (batch_size d)) (dataset_rows (dataset_iter d idx))"
proof -
  let ?d = "dataset_iter d idx"
  have f: "batch_i ?d = 0" "n_batches ?d = n_batches d" "batch_size ?d = batch_size d"
    by (simp_all add: dataset_iter_def)
  have "map batch_rows (batches_from ?d)
      = map (\<lambda>k. batch_rows (batch_of ?d k)) [0..<nat (n_batches d)]"
    using batches_from_eq[of ?d] f by simp
  also have "\<dots> = map (\<lambda>k. take (nat (batch_size d))
                        (drop (k * nat (batch_size d)) (dataset_rows ?d)))
                      [0..<nat (n_batches d)]"
    using batch_of_rows[OF dataset_wf_iter[OF wf p]] bs f by simp
  finally show ?thesis
    by (simp add: full_pass_def concat_windows)
qed

lemma seq_nn_inputs_length: "seq_nn_inputs cs = Inr ts \<Longrightarrow> length ts = length cs"
  by (induction cs arbitrary: ts) (auto split: sum.splits prod.splits)

lemma RemoraDataset_init_wf:
  assumes "RemoraDataset_init chunks bs sh dl rrd = Inr d"
  shows "dataset_wf d"
  using RemoraDataset_init_Inr[OF assms] seq_nn_inputs_length[of chunks "seq_tensor d"]
  by (auto simp: dataset_wf_def)


lemma batches_cover:
  assumes bs: "0 < bs" and c: "\<not> dl \<or> int n mod bs = 0"
  shows "n \<le> nat (if \<not> dl \<and> int n mod bs > 0 then int n div bs + 1 else int n div bs)
              * nat bs"
proof -
  let ?q = "int n div bs" and ?r = "int n mod bs"
  have q: "0 \<le> ?q" using bs by (simp add: pos_imp_zdiv_nonneg_iff)
  have r: "0 \<le> ?r" "?r < bs" using bs by simp_all
  have e: "?q * bs + ?r = int n" by (rule div_mult_mod_eq)
  show ?thesis
  proof (cases "?r > 0")
    case True
    with c have nd: "\<not> dl" by auto
    have "(?q + 1) * bs = ?q * bs + bs" by (simp add: algebra_simps)
    then have "int n \<le> (?q + 1) * bs" using e r by linarith
    also have "\<dots> = int (nat (?q + 1) * nat bs)" using q bs by (simp add: nat_mult_distrib)
    finally have "n \<le> nat (?q + 1) * nat bs" by linarith
    with True nd show ?thesis by simp
  next
    case False
    with r have "?r = 0" by simp
    with e have "int n = ?q * bs" by simp
    also have "\<dots> = int (nat ?q * nat bs)" using q bs by (simp add: nat_mult_distrib)
    finally have "n \<le> nat ?q * nat bs" by linarith
    with False show ?thesis by simp
  qed
qed

lemma example_dataset:
  "map_sum id dataset_len
     (RemoraDataset_init [small_chunk, small_chunk\<lparr>label := 1\<rparr>, small_chunk\<lparr>label := 2\<rparr>]
        2 True False True) = Inr 3"
  by code_simp

text \<open>
  C8.  For a dataset built by the constructor and a permutation \<open>shuf_idx\<close> of its
  row indices: \<open>__iter__\<close> leaves the multiset of rows (signal, sequence features,
  label, read data) unchanged; with a positive batch size the batches of a full pass,
  concatenated, are the first \<open>n_batches * batch_size\<close> rows of the dataset after
  \<open>__iter__\<close>; and when \<open>drop_last\<close> is off or the batch size divides the number of
  rows, they make up the same multiset of rows as before.
\<close>

theorem dataset_shuffle_rows:
  assumes init: "RemoraDataset_init chunks bs sh dl rrd = Inr d"
    and p: "mset shuf_idx = mset [0..<dataset_len d]"
  shows "mset (dataset_rows (dataset_iter d shuf_idx)) = mset (dataset_rows d)
         \<and> (0 < bs \<longrightarrow>
              concat (map batch_rows (full_pass d shuf_idx))
                = take (nat (n_batches d) * nat bs) (dataset_rows (dataset_iter d shuf_idx)))
         \<and> (0 < bs \<and> (\<not> dl \<or> int (length chunks) mod bs = 0) \<longrightarrow>
              mset (concat (map batch_rows (full_pass d shuf_idx))) = mset (dataset_rows d))"
proof -
  note f = RemoraDataset_init_Inr[OF init]
  note wf = RemoraDataset_init_wf[OF init]
  have len: "length (dataset_rows d) = dataset_len d" by (rule length_dataset_rows[OF wf])
  have m: "mset (dataset_rows (dataset_iter d shuf_idx)) = mset (dataset_rows d)"
    using dataset_rows_iter[OF wf p] mset_index_by[of shuf_idx "dataset_rows d"] p len
    by simp
  have t: "concat (map batch_rows (full_pass d shuf_idx))
             = take (nat (n_batches d) * nat bs) (dataset_rows (dataset_iter d shuf_idx))"
    if "0 < bs"
    using full_pass_rows[OF wf p] that f(3) by simp
  have a: "mset (concat (map batch_rows (full_pass d shuf_idx))) = mset (dataset_rows d)"
    if bs: "0 < bs" and c: "\<not> dl \<or> int (length chunks) mod bs = 0"
  proof -
    have "length (dataset_rows (dataset_iter d shuf_idx)) = length chunks"
      using length_dataset_rows[OF dataset_wf_iter[OF wf p]] f(7)
      by (simp add: dataset_iter_def)
    moreover have "length chunks \<le> nat (n_batches d) * nat bs"
      using batches_cover[OF bs c] f(12) by simp
    ultimately show ?thesis using t[OF bs] m by simp
  qed
  show ?thesis
  proof (intro conjI impI)
    show "mset (dataset_rows (dataset_iter d shuf_idx)) = mset (dataset_rows d)" by (rule m)
  next
    assume "0 < bs"
    then show "concat (map batch_rows (full_pass d shuf_idx))
        = take (nat (n_batches d) * nat bs) (dataset_rows (dataset_iter d shuf_idx))"
      by (rule t)
  next
    assume "0 < bs \<and> (\<not> dl \<or> int (length chunks) mod bs = 0)"
    then have "0 < bs" "\<not> dl \<or> int (length chunks) mod bs = 0" by simp_all
    then show "mset (concat (map batch_rows (full_pass d shuf_idx))) = mset (dataset_rows d)"
      by (rule a)
  qed
qed

theorem dataset_shuffle_rows_witness:
  "\<exists>d. RemoraDataset_init
          [small_chunk, small_chunk\<lparr>label := 1\<rparr>, small_chunk\<lparr>label := 2\<rparr>] 2 True False True
        = Inr d
     \<and> mset [2, 0, 1] = mset [0..<dataset_len d]
     \<and> mset (dataset_rows (dataset_iter d [2, 0, 1])) = mset (dataset_rows d)
     \<and> mset (concat (map batch_rows (full_pass d [2, 0, 1]))) = mset (dataset_rows d)"
proof -
  let ?cs = "[small_chunk, small_chunk\<lparr>label := 1\<rparr>, small_chunk\<lparr>label := 2\<rparr>]"
  from example_dataset obtain d where
    d: "RemoraDataset_init ?cs 2 True False True = Inr d" and l: "dataset_len d = 3"
    by (cases "RemoraDataset_init ?cs 2 True False True") auto
  have "[0..<3] = [0, 1, 2]" by (simp add: upt_rec)
  then have p: "mset [2, 0, 1] = mset [0..<dataset_len d]" using l by simp
  from dataset_shuffle_rows[OF d p] d p show ?thesis by auto
qed

text \<open>
  With \<open>drop_last\<close> on, three rows at a batch size of two give a single batch: the
  batches of a full pass hold two of the three rows.
\<close>

theorem drop_last_loses_rows:
  "map_sum id (\<lambda>d. (length (dataset_rows d),
                    length (concat (map batch_rows (full_pass d [2, 0, 1])))))
     (RemoraDataset_init
        [small_chunk, small_chunk\<lparr>label := 1\<rparr>, small_chunk\<lparr>label := 2\<rparr>] 2 True True True)
   = Inr (3, 2)"
  by code_simp

section \<open>Masking the focus base\<close>





















end
